theory Spec2Isabelle
  imports Main "HOL-Library.Word"
begin

section \<open>Values handled by the page\<close>

text \<open>
  The program is a single script, \<^verbatim>\<open>index.tsx\<close>, running in a browser page. It keeps two
  module variables, writes properties of DOM elements, reads files through
  \<^verbatim>\<open>FileReader\<close> and calls a remote generation service. The border colour that the
  drag listeners set on the upload box (lines 186-198) is left out; everything else the
  script writes is in the state below. Strings are lists of 8-bit characters; the one
  non-ASCII character of the source (an en dash in the prompt) appears as its three UTF-8
  bytes.
\<close>

type_synonym byte = "8 word"

text \<open>A browser \<^verbatim>\<open>File\<close>. The script reads its \<^verbatim>\<open>type\<close>; its content reaches the script
  only through \<^verbatim>\<open>FileReader\<close>.\<close>

record File =
  type :: string
  file_bytes :: "byte list"

text \<open>
  A value that was thrown or with which a promise was rejected. \<open>Error m\<close> is an object
  for which \<^verbatim>\<open>instanceof Error\<close> holds, with \<^verbatim>\<open>message\<close> \<open>m\<close>; \<open>NonError v\<close> is any
  other value, \<open>v\<close> being what \<^verbatim>\<open>String(...)\<close> makes of it.
\<close>

datatype thrown = Error string | NonError string

text \<open>
  The inline-data object \<^verbatim>\<open>{mimeType, data}\<close>, used in requests, in responses and as
  the result of \<^verbatim>\<open>fileToGenerativePart\<close>. \<open>data = None\<close> is JavaScript's
  \<^verbatim>\<open>undefined\<close>.
\<close>

record Blob =
  mimeType :: string
  data :: "string option"

text \<open>
  The parts of a request or a response. The script builds parts with \<^verbatim>\<open>inlineData\<close> or
  \<^verbatim>\<open>text\<close> and tests \<^verbatim>\<open>part.inlineData\<close> for presence; \<open>part_text\<close> is the field
  \<^verbatim>\<open>text\<close>. In a response every field on the way to the parts may be absent
  (\<^verbatim>\<open>candidates\<close>, \<^verbatim>\<open>content\<close> and \<^verbatim>\<open>parts\<close> are optional in the service's types, and a
  blocked response carries candidates without content): \<open>None\<close> is an absent field, and
  the list of candidates may be empty.
\<close>

record Part =
  part_text :: "string option"
  inlineData :: "Blob option"

record Content =
  parts :: "Part list option"

record Candidate =
  content :: "Content option"

record GenerateContentResponse =
  candidates :: "Candidate list option"

datatype Modality = IMAGE | TEXT

record GenerateContentConfig =
  responseModalities :: "Modality list"

record GenerateContentParameters =
  model :: string
  contents :: Content
  config :: GenerateContentConfig

text \<open>How the promise returned by \<^verbatim>\<open>ai.models.generateContent\<close> settles.\<close>

datatype outcome = Rejected thrown | Resolved GenerateContentResponse

text \<open>
  How a \<^verbatim>\<open>FileReader\<close> read ends. \<open>ReadError\<close>: the \<^verbatim>\<open>error\<close> event fires, then
  \<^verbatim>\<open>loadend\<close> with \<^verbatim>\<open>result\<close> null. \<open>ReadResult r\<close>: only \<^verbatim>\<open>loadend\<close> fires, and
  \<^verbatim>\<open>reader.result\<close> is the string \<open>r\<close>, or not a string when \<open>r = None\<close>.
\<close>

datatype read_end = ReadError | ReadResult "string option"

section \<open>The state of the page\<close>

text \<open>
  The two module variables (lines 32-33), the properties of the DOM elements that the
  script writes (a \<open>_hidden\<close> field is membership of the class \<^verbatim>\<open>hidden\<close>), and four
  logs of the script's calls into its environment: \<^verbatim>\<open>alert\<close>, \<^verbatim>\<open>console.error\<close>,
  \<^verbatim>\<open>ai.models.generateContent\<close> and \<^verbatim>\<open>reader.readAsDataURL\<close>.
  \<open>imagePreview_src = Some f\<close> is an object URL made for the file \<open>f\<close>.
\<close>

record page =
  uploadedFile :: "File option"
  uploadedFileAsBase64 :: "string option"
  imagePreview_src :: "File option"
  imagePreview_hidden :: bool
  uploadPlaceholder_hidden :: bool
  generateBtn_disabled :: bool
  generateBtn_textContent :: string
  resultImage_src :: string
  resultImage_hidden :: bool
  resultPlaceholder_hidden :: bool
  loader_hidden :: bool
  alerts :: "string list"
  console_errors :: "thrown list"
  requests :: "GenerateContentParameters list"
  reads :: "File list"

section \<open>Constants of the script\<close>

definition PROMPT :: string where
  "PROMPT =
     ''A cinematic scene inside a fast food restaurant at night.'' @ [CHR 0x0A] @
     ''Foreground: a lonely table with burgers and fries, and a smartphone shown large and sharp on the table, clearly displaying the uploaded anime/game character image.'' @ [CHR 0x0A] @
     ''A hand is reaching for food, symbolizing solitude.'' @ [CHR 0x0A] @
     [CHR 0x0A] @
     ''Midground: in the blurred background, a couple is sitting together and kiss.'' @ [CHR 0x0A] @
     ''One of them is represented as a cosplayer version of the uploaded character:'' @ [CHR 0x0A] @
     [CHR 0xE2, CHR 0x80, CHR 0x93] @ '' If the uploaded character is humanoid, show accurate cosplay with hairstyle, costume, and signature props.'' @ [CHR 0x0A] @
     [CHR 0xE2, CHR 0x80, CHR 0x93] @ '' If the uploaded character is non-humanoid (mecha, creature, mascot, etc.), show a gijinka (humanized cosplay interpretation) that carries clear visual cues, costume colors, and props from the reference image (armor pieces, wings, ears, weapon, or iconic accessories).'' @ [CHR 0x0A] @
     ''The other person is an ordinary human, and they are showing intimate affection (kissing, holding hands, or sharing food).'' @ [CHR 0x0A] @
     [CHR 0x0A] @
     ''Background: large glass windows, blurred neon city lights outside.'' @ [CHR 0x0A] @
     ''Mood: melancholic, bittersweet, ironic, cinematic shallow depth of field.'' @ [CHR 0x0A] @
     [CHR 0x0A] @
     ''[reference: the uploaded image defines both the smartphone display and the cosplay design, with visible props emphasized]'' @ [CHR 0x0A] @
     [CHR 0x0A] @
     ''Image size is 585px 1024px''"

definition MODEL :: string where
  "MODEL = ''gemini-2.5-flash-image-preview''"

definition NO_IMAGE_MESSAGE :: string where
  "NO_IMAGE_MESSAGE = ''No image was generated. The model may have refused the request.''"

text \<open>
  The messages of the \<^verbatim>\<open>TypeError\<close>s that \<^verbatim>\<open>response.candidates[0].content.parts\<close> and
  the loop over it raise when \<^verbatim>\<open>candidates\<close>, the first candidate, its \<^verbatim>\<open>content\<close> or its
  \<^verbatim>\<open>parts\<close> is absent. Their wording belongs to the JavaScript engine; this is V8's.
\<close>

definition cannot_read :: "string \<Rightarrow> string" where
  "cannot_read property =
     ''Cannot read properties of undefined (reading '' @ [CHR 0x27] @ property @ [CHR 0x27] @ '')''"

definition NO_CANDIDATES_MESSAGE :: string where
  "NO_CANDIDATES_MESSAGE = cannot_read ''0''"

definition NO_CANDIDATE_MESSAGE :: string where
  "NO_CANDIDATE_MESSAGE = cannot_read ''content''"

definition NO_CONTENT_MESSAGE :: string where
  "NO_CONTENT_MESSAGE = cannot_read ''parts''"

definition NO_PARTS_MESSAGE :: string where
  "NO_PARTS_MESSAGE = ''response.candidates[0].content.parts is not iterable''"

section \<open>JavaScript string and array operations used by the script\<close>

definition startsWith :: "string \<Rightarrow> string \<Rightarrow> bool" where
  "startsWith s p = (take (length p) s = p)"

text \<open>\<^verbatim>\<open>s.split(sep)\<close> for a one-character separator: always at least one piece.\<close>

fun js_split :: "char \<Rightarrow> string \<Rightarrow> string list" where
  "js_split sep [] = [[]]"
| "js_split sep (c # cs) =
     (if c = sep then [] # js_split sep cs
      else (case js_split sep cs of
              [] \<Rightarrow> [[c]]
            | w # ws \<Rightarrow> (c # w) # ws))"

text \<open>\<^verbatim>\<open>xs[i]\<close>: \<^verbatim>\<open>undefined\<close> out of range.\<close>

definition item :: "'a list \<Rightarrow> nat \<Rightarrow> 'a option" where
  "item xs i = (if i < length xs then Some (xs ! i) else None)"

text \<open>A value inside a template literal: \<^verbatim>\<open>undefined\<close> is spelled out.\<close>

fun template_str :: "string option \<Rightarrow> string" where
  "template_str None = ''undefined''"
| "template_str (Some s) = s"

section \<open>The functions of the script\<close>

definition alert :: "string \<Rightarrow> page \<Rightarrow> page" where
  "alert msg s = s\<lparr>alerts := alerts s @ [msg]\<rparr>"

text \<open>
  \<^verbatim>\<open>fileToGenerativePart\<close> (lines 45-63), given how the read ends. A promise settles
  once: after \<^verbatim>\<open>onerror\<close> has rejected it with the event, the rejection made by
  \<^verbatim>\<open>onloadend\<close> has no effect.
\<close>

fun fileToGenerativePart :: "File \<Rightarrow> read_end \<Rightarrow> thrown + Blob" where
  "fileToGenerativePart file ReadError = Inl (NonError ''[object ProgressEvent]'')"
| "fileToGenerativePart file (ReadResult None) =
     Inl (Error ''Failed to read file as base64 string.'')"
| "fileToGenerativePart file (ReadResult (Some result)) =
     Inr \<lparr>mimeType = type file, data = item (js_split (CHR '','') result) 1\<rparr>"

text \<open>
  \<^verbatim>\<open>handleFileSelect\<close> (lines 70-89) runs in two turns of the event loop, split at its
  \<^verbatim>\<open>await\<close>: \<open>handleFileSelect_start\<close> is lines 71-87 up to the call of
  \<^verbatim>\<open>fileToGenerativePart\<close>, which starts the read; \<open>handleFileSelect_resume\<close> is the
  rest, run when the read has ended. When the promise is rejected the function ends there
  and line 88 is not run.
\<close>

definition handleFileSelect_start :: "File option \<Rightarrow> page \<Rightarrow> page" where
  "handleFileSelect_start fo s =
     (case fo of
        None \<Rightarrow> alert ''Please select a valid image file.'' s
      | Some file \<Rightarrow>
          if \<not> startsWith (type file) ''image/''
          then alert ''Please select a valid image file.'' s
          else s\<lparr>uploadedFile := Some file,
                 imagePreview_src := Some file,
                 imagePreview_hidden := False,
                 uploadPlaceholder_hidden := True,
                 generateBtn_disabled := False,
                 reads := reads s @ [file]\<rparr>)"

definition handleFileSelect_resume :: "thrown + Blob \<Rightarrow> page \<Rightarrow> page" where
  "handleFileSelect_resume r s =
     (case r of
        Inl e \<Rightarrow> s
      | Inr part \<Rightarrow> s\<lparr>uploadedFileAsBase64 := data part\<rparr>)"

text \<open>\<^verbatim>\<open>setLoading\<close> (lines 158-168).\<close>

definition setLoading :: "bool \<Rightarrow> page \<Rightarrow> page" where
  "setLoading isLoading s =
     (if isLoading
      then s\<lparr>loader_hidden := False,
             generateBtn_disabled := True,
             generateBtn_textContent := ''Generating...''\<rparr>
      else s\<lparr>loader_hidden := True,
             generateBtn_disabled := False,
             generateBtn_textContent := ''Generate Scene''\<rparr>)"

text \<open>
  \<^verbatim>\<open>generateScene\<close> (lines 95-151) also runs in two turns, split at its \<^verbatim>\<open>await\<close>.
  \<open>generateScene_start\<close> is lines 96-124: the guard, the start of loading and the call
  of the service. An empty string is falsy, so the guard also stops on an empty encoding.
\<close>

definition generateScene_start :: "page \<Rightarrow> page" where
  "generateScene_start s =
     (case uploadedFile s of
        None \<Rightarrow> alert ''Please upload an image first.'' s
      | Some file \<Rightarrow>
          (case uploadedFileAsBase64 s of
             None \<Rightarrow> alert ''Please upload an image first.'' s
           | Some b64 \<Rightarrow>
               if b64 = [] then alert ''Please upload an image first.'' s
               else
                 let s1 = setLoading True s;
                     s2 = s1\<lparr>resultPlaceholder_hidden := True, resultImage_hidden := True\<rparr>;
                     imagePart = \<lparr>part_text = None,
                                  inlineData = Some \<lparr>mimeType = type file, data = Some b64\<rparr>\<rparr>;
                     textPart = \<lparr>part_text = Some PROMPT, inlineData = None\<rparr>
                 in s2\<lparr>requests := requests s2 @
                          [\<lparr>model = MODEL,
                            contents = \<lparr>parts = Some [imagePart, textPart]\<rparr>,
                            config = \<lparr>responseModalities = [IMAGE, TEXT]\<rparr>\<rparr>]\<rparr>))"

text \<open>The loop of lines 127-137: the flag \<^verbatim>\<open>generatedImageFound\<close> and the page. The
  loop stops at the first part whose \<^verbatim>\<open>inlineData\<close> is present.\<close>

fun scan_parts :: "Part list \<Rightarrow> page \<Rightarrow> bool \<times> page" where
  "scan_parts [] s = (False, s)"
| "scan_parts (p # ps) s =
     (case inlineData p of
        Some d \<Rightarrow>
          (True, s\<lparr>resultImage_src :=
                      ''data:'' @ mimeType d @ '';base64,'' @ template_str (data d),
                    resultImage_hidden := False\<rparr>)
      | None \<Rightarrow> scan_parts ps s)"

text \<open>
  The expression \<^verbatim>\<open>response.candidates[0].content.parts\<close> of line 128, evaluated with
  no check, and taken as the sequence of the loop: the list of parts, or the
  \<^verbatim>\<open>TypeError\<close> raised at the first absent field.
\<close>

definition first_candidate_parts :: "GenerateContentResponse \<Rightarrow> thrown + Part list" where
  "first_candidate_parts response =
     (case candidates response of
        None \<Rightarrow> Inl (Error NO_CANDIDATES_MESSAGE)
      | Some cands \<Rightarrow>
          (case cands of
             [] \<Rightarrow> Inl (Error NO_CANDIDATE_MESSAGE)
           | c # cs \<Rightarrow>
               (case content c of
                  None \<Rightarrow> Inl (Error NO_CONTENT_MESSAGE)
                | Some ct \<Rightarrow>
                    (case parts ct of
                       None \<Rightarrow> Inl (Error NO_PARTS_MESSAGE)
                     | Some ps \<Rightarrow> Inr ps))))"

text \<open>Lines 127-141, the rest of the \<^verbatim>\<open>try\<close> block once the response is there: the page,
  and the value thrown if any.\<close>

definition handle_response :: "GenerateContentResponse \<Rightarrow> page \<Rightarrow> page \<times> thrown option" where
  "handle_response response s =
     (case first_candidate_parts response of
        Inl e \<Rightarrow> (s, Some e)
      | Inr ps \<Rightarrow>
          (case scan_parts ps s of
             (generatedImageFound, s') \<Rightarrow>
               if \<not> generatedImageFound then (s', Some (Error NO_IMAGE_MESSAGE))
               else (s', None)))"

text \<open>The \<^verbatim>\<open>catch\<close> block, lines 143-146.\<close>

fun error_text :: "thrown \<Rightarrow> string" where
  "error_text (Error message) = message"
| "error_text (NonError v) = v"

definition catch_block :: "thrown \<Rightarrow> page \<Rightarrow> page" where
  "catch_block error s =
     (alert (''An error occurred: '' @ error_text error)
        (s\<lparr>console_errors := console_errors s @ [error]\<rparr>))
     \<lparr>resultPlaceholder_hidden := False\<rparr>"

text \<open>
  \<open>generateScene_resume\<close> is lines 118-150 from the \<^verbatim>\<open>await\<close> on, run when the call
  has settled. \<open>try_block\<close> is what is left of the \<^verbatim>\<open>try\<close> block: a rejected call
  throws at the \<^verbatim>\<open>await\<close>. The \<^verbatim>\<open>finally\<close> block runs in every case.
\<close>

definition try_block :: "outcome \<Rightarrow> page \<Rightarrow> page \<times> thrown option" where
  "try_block out s =
     (case out of
        Rejected e \<Rightarrow> (s, Some e)
      | Resolved response \<Rightarrow> handle_response response s)"

definition generateScene_resume :: "outcome \<Rightarrow> page \<Rightarrow> page" where
  "generateScene_resume out s =
     (case try_block out s of
        (s1, ex) \<Rightarrow>
          setLoading False (case ex of None \<Rightarrow> s1 | Some e \<Rightarrow> catch_block e s1))"

section \<open>The event loop\<close>

text \<open>
  The script is entered by the browser: when a file is chosen or dropped (lines 178-203
  call \<^verbatim>\<open>handleFileSelect\<close>), when a read ends, when the button is clicked (line 206)
  and when a call of the service settles. Each entry runs to its end or to its
  \<^verbatim>\<open>await\<close> before the next one starts.
\<close>

datatype event =
    FileSelected "File option"
  | ReadEnded File read_end
  | GenerateClicked
  | CallSettled outcome

fun handle :: "event \<Rightarrow> page \<Rightarrow> page" where
  "handle (FileSelected fo) s = handleFileSelect_start fo s"
| "handle (ReadEnded file re) s = handleFileSelect_resume (fileToGenerativePart file re) s"
| "handle GenerateClicked s = generateScene_start s"
| "handle (CallSettled out) s = generateScene_resume out s"

definition run :: "event list \<Rightarrow> page \<Rightarrow> page" where
  "run evs s = foldl (\<lambda>s ev. handle ev s) s evs"

text \<open>The value thrown inside the \<^verbatim>\<open>try\<close> block for a given outcome of the call; it does
  not depend on the page (lemma \<open>snd_try_block\<close>).\<close>

fun thrown_of :: "outcome \<Rightarrow> thrown option" where
  "thrown_of (Rejected e) = Some e"
| "thrown_of (Resolved response) =
     (case first_candidate_parts response of
        Inl e \<Rightarrow> Some e
      | Inr ps \<Rightarrow>
          if list_ex (\<lambda>p. inlineData p \<noteq> None) ps then None
          else Some (Error NO_IMAGE_MESSAGE))"

text \<open>An event that puts an image into the result panel: a call that settles without
  anything thrown.\<close>

fun shows_image :: "event \<Rightarrow> bool" where
  "shows_image (CallSettled out) = (thrown_of out = None)"
| "shows_image ev = False"

section \<open>The browser's encoding of a file\<close>

text \<open>
  \<^verbatim>\<open>FileReader.readAsDataURL\<close> belongs to the browser, not to the script. By the File
  API a successful read ends with \<^verbatim>\<open>result\<close> a data URL: \<^verbatim>\<open>data:\<close>, the file's type,
  \<^verbatim>\<open>;base64,\<close> and the content in base64 (RFC 4648, with padding). \<open>base64\<close> takes
  three octets to four characters; \<open>base64_decode\<close> is the inverse that
  \<^verbatim>\<open>atob\<close> computes on such text. (Browsers that end the read of an empty file with
  the bare string \<^verbatim>\<open>data:\<close> depart from this; \<open>ReadResult\<close> covers them, \<open>readAsDataURL\<close>
  does not.)
\<close>

definition base64_alphabet :: string where
  "base64_alphabet = ''ABCDEFGHIJKLMNOPQRSTUVWXYZabcdefghijklmnopqrstuvwxyz0123456789+/''"

definition base64_char :: "nat \<Rightarrow> char" where
  "base64_char n = base64_alphabet ! n"

fun base64 :: "byte list \<Rightarrow> string" where
  "base64 [] = []"
| "base64 [a] =
     [base64_char (unat a div 4), base64_char (unat a mod 4 * 16), CHR ''='', CHR ''='']"
| "base64 [a, b] =
     [base64_char (unat a div 4), base64_char (unat a mod 4 * 16 + unat b div 16),
      base64_char (unat b mod 16 * 4), CHR ''='']"
| "base64 (a # b # c # bs) =
     [base64_char (unat a div 4), base64_char (unat a mod 4 * 16 + unat b div 16),
      base64_char (unat b mod 16 * 4 + unat c div 64), base64_char (unat c mod 64)]
     @ base64 bs"

fun index_of :: "'a \<Rightarrow> 'a list \<Rightarrow> nat" where
  "index_of x [] = 0"
| "index_of x (y # ys) = (if x = y then 0 else Suc (index_of x ys))"

definition base64_value :: "char \<Rightarrow> nat" where
  "base64_value c = index_of c base64_alphabet"

fun base64_decode :: "string \<Rightarrow> byte list" where
  "base64_decode (c0 # c1 # c2 # c3 # cs) =
     (let v0 = base64_value c0; v1 = base64_value c1;
          v2 = base64_value c2; v3 = base64_value c3
      in if c2 = CHR ''='' then [of_nat (v0 * 4 + v1 div 16)]
         else if c3 = CHR ''=''
         then [of_nat (v0 * 4 + v1 div 16), of_nat (v1 mod 16 * 16 + v2 div 4)]
         else of_nat (v0 * 4 + v1 div 16) # of_nat (v1 mod 16 * 16 + v2 div 4)
              # of_nat (v2 mod 4 * 64 + v3) # base64_decode cs)"
| "base64_decode cs = []"

definition readAsDataURL :: "File \<Rightarrow> read_end" where
  "readAsDataURL file =
     ReadResult (Some (''data:'' @ type file @ '';base64,'' @ base64 (file_bytes file)))"

section \<open>The page as loaded, and sample values\<close>

text \<open>
  Modelled from the spec: the markup of the page (\<^verbatim>\<open>index.html\<close>) is not among the
  sources. The spec describes a page with nothing selected, an upload region showing its
  placeholder, "a disabled-until-ready trigger control" whose "original label" is the one
  that leaving Loading restores, and a result region showing its placeholder.
\<close>

definition initial_page :: page where
  "initial_page =
     \<lparr>uploadedFile = None,
      uploadedFileAsBase64 = None,
      imagePreview_src = None,
      imagePreview_hidden = True,
      uploadPlaceholder_hidden = False,
      generateBtn_disabled = True,
      generateBtn_textContent = ''Generate Scene'',
      resultImage_src = [],
      resultImage_hidden = True,
      resultPlaceholder_hidden = False,
      loader_hidden = True,
      alerts = [],
      console_errors = [],
      requests = [],
      reads = []\<rparr>"

definition cat_png :: File where
  "cat_png = \<lparr>type = ''image/png'', file_bytes = [0x89, 0x50, 0x4E, 0x47]\<rparr>"

definition dog_jpeg :: File where
  "dog_jpeg = \<lparr>type = ''image/jpeg'', file_bytes = [0xFF, 0xD8, 0xFF]\<rparr>"

definition notes_txt :: File where
  "notes_txt = \<lparr>type = ''text/plain'', file_bytes = [0x68, 0x69]\<rparr>"

definition odd_type_file :: File where
  "odd_type_file = \<lparr>type = ''image/a,b'', file_bytes = [0x41]\<rparr>"

definition said :: "string \<Rightarrow> Part" where
  "said t = \<lparr>part_text = Some t, inlineData = None\<rparr>"

definition picture :: "string \<Rightarrow> string \<Rightarrow> Part" where
  "picture mt payload =
     \<lparr>part_text = None, inlineData = Some \<lparr>mimeType = mt, data = Some payload\<rparr>\<rparr>"

definition candidate_of :: "Part list \<Rightarrow> Candidate" where
  "candidate_of ps = \<lparr>content = Some \<lparr>parts = Some ps\<rparr>\<rparr>"

text \<open>The page after \<open>cat_png\<close> has been chosen and its read has ended.\<close>

definition cat_page :: page where
  "cat_page = run [FileSelected (Some cat_png), ReadEnded cat_png (readAsDataURL cat_png)]
                initial_page"

text \<open>Responses and sequences of events used as examples.\<close>

definition two_candidates :: GenerateContentResponse where
  "two_candidates =
     \<lparr>candidates = Some [candidate_of [said ''I cannot draw this.''],
                         candidate_of [picture ''image/png'' ''QUJD'']]\<rparr>"

text \<open>A response blocked by the service: one candidate, without content.\<close>

definition blocked_response :: GenerateContentResponse where
  "blocked_response = \<lparr>candidates = Some [\<lparr>content = None\<rparr>]\<rparr>"

definition one_picture :: GenerateContentResponse where
  "one_picture = \<lparr>candidates = Some [candidate_of [picture ''image/png'' ''QUJD'']]\<rparr>"

text \<open>
  A second attempt started while the first is in flight: choosing a file again enables
  the button that the first attempt disabled (line 84). The first call then resolves with
  a picture and the second is rejected.
\<close>

definition overlapping_attempts :: "event list" where
  "overlapping_attempts =
     [FileSelected (Some cat_png), ReadEnded cat_png (readAsDataURL cat_png),
      GenerateClicked,
      FileSelected (Some cat_png),
      GenerateClicked,
      CallSettled (Resolved one_picture),
      CallSettled (Rejected (Error ''quota exceeded''))]"

text \<open>A second file is chosen after the first was encoded, and the button is clicked
  before the read of the second file has ended.\<close>

definition reselect_then_generate :: "event list" where
  "reselect_then_generate =
     [FileSelected (Some cat_png), ReadEnded cat_png (readAsDataURL cat_png),
      FileSelected (Some dog_jpeg),
      GenerateClicked]"

section \<open>Properties\<close>

subsection \<open>The scan of the parts and the try block\<close>

lemma scan_parts_none:
  "\<forall>p \<in> set ps. inlineData p = None \<Longrightarrow> scan_parts ps s = (False, s)"
  by (induction ps) auto

lemma scan_parts_first:
  "\<forall>q \<in> set pre. inlineData q = None \<Longrightarrow> inlineData p = Some d \<Longrightarrow>
   scan_parts (pre @ p # post) s =
     (True, s\<lparr>resultImage_src := ''data:'' @ mimeType d @ '';base64,'' @ template_str (data d),
              resultImage_hidden := False\<rparr>)"
  by (induction pre) auto

lemma fst_scan_parts: "fst (scan_parts ps s) = (\<exists>p \<in> set ps. inlineData p \<noteq> None)"
  by (induction ps) (auto split: option.splits)

lemma first_candidate_parts_Inr:
  "candidates r = Some (c # cs) \<Longrightarrow> content c = Some ct \<Longrightarrow> parts ct = Some ps \<Longrightarrow>
   first_candidate_parts r = Inr ps"
  by (simp add: first_candidate_parts_def)

lemma snd_handle_response:
  "snd (handle_response r s) = thrown_of (Resolved r)"
proof (cases "first_candidate_parts r")
  case (Inl e)
  then show ?thesis by (simp add: handle_response_def)
next
  case (Inr ps)
  obtain found s' where sp: "scan_parts ps s = (found, s')"
    by (cases "scan_parts ps s")
  have "found = (\<exists>p \<in> set ps. inlineData p \<noteq> None)"
    using fst_scan_parts [of ps s] sp by simp
  then show ?thesis
    using Inr sp by (simp add: handle_response_def list_ex_iff)
qed

lemma snd_try_block: "snd (try_block out s) = thrown_of out"
  by (cases out) (simp_all add: try_block_def snd_handle_response)

lemma fst_try_block_thrown: "thrown_of out = Some e \<Longrightarrow> fst (try_block out s) = s"
proof (cases out)
  case (Rejected e')
  then show ?thesis by (simp add: try_block_def)
next
  case (Resolved r)
  assume th: "thrown_of out = Some e"
  show ?thesis
  proof (cases "first_candidate_parts r")
    case (Inl e')
    then show ?thesis using Resolved by (simp add: try_block_def handle_response_def)
  next
    case (Inr ps)
    have "\<forall>p \<in> set ps. inlineData p = None"
      using th Resolved Inr by (auto simp: list_ex_iff split: if_splits)
    then show ?thesis
      using Resolved Inr by (simp add: try_block_def handle_response_def scan_parts_none)
  qed
qed

lemma generateScene_resume_thrown:
  "thrown_of out = Some e \<Longrightarrow>
   generateScene_resume out s = setLoading False (catch_block e s)"
  using snd_try_block [of out s] fst_try_block_thrown [of out e s]
  by (cases "try_block out s") (simp add: generateScene_resume_def)

subsection \<open>The two turns of generateScene\<close>

lemma generateScene_start_ready:
  assumes "uploadedFile s = Some file" "uploadedFileAsBase64 s = Some b64" "b64 \<noteq> []"
  shows "generateScene_start s =
     (s\<lparr>loader_hidden := False,
        generateBtn_disabled := True,
        generateBtn_textContent := ''Generating...'',
        resultPlaceholder_hidden := True,
        resultImage_hidden := True\<rparr>)
     \<lparr>requests := requests s @
        [\<lparr>model = MODEL,
          contents = \<lparr>parts = Some [\<lparr>part_text = None,
                                 inlineData = Some \<lparr>mimeType = type file, data = Some b64\<rparr>\<rparr>,
                               \<lparr>part_text = Some PROMPT, inlineData = None\<rparr>]\<rparr>,
          config = \<lparr>responseModalities = [IMAGE, TEXT]\<rparr>\<rparr>]\<rparr>"
  using assms by (simp add: generateScene_start_def setLoading_def Let_def)

lemma generateScene_resume_idle:
  "loader_hidden (generateScene_resume out m)"
  "\<not> generateBtn_disabled (generateScene_resume out m)"
  "generateBtn_textContent (generateScene_resume out m) = ''Generate Scene''"
  by (simp_all add: generateScene_resume_def setLoading_def split: prod.splits)

lemma setLoading_frame:
  "uploadedFile (setLoading b s) = uploadedFile s"
  "uploadedFileAsBase64 (setLoading b s) = uploadedFileAsBase64 s"
  by (simp_all add: setLoading_def)

lemma catch_block_frame:
  "uploadedFile (catch_block e s) = uploadedFile s"
  "uploadedFileAsBase64 (catch_block e s) = uploadedFileAsBase64 s"
  by (simp_all add: catch_block_def alert_def)

lemma scan_parts_frame:
  "uploadedFile (snd (scan_parts ps s)) = uploadedFile s"
  "uploadedFileAsBase64 (snd (scan_parts ps s)) = uploadedFileAsBase64 s"
  by (induction ps) (simp_all split: option.splits)

lemma handle_response_frame:
  "uploadedFile (fst (handle_response r s)) = uploadedFile s"
  "uploadedFileAsBase64 (fst (handle_response r s)) = uploadedFileAsBase64 s"
proof -
  have "uploadedFile (fst (handle_response r s)) = uploadedFile s
      \<and> uploadedFileAsBase64 (fst (handle_response r s)) = uploadedFileAsBase64 s"
  proof (cases "first_candidate_parts r")
    case (Inl e)
    then show ?thesis by (simp add: handle_response_def)
  next
    case (Inr ps)
    then show ?thesis
      using scan_parts_frame [of ps s]
      by (cases "scan_parts ps s") (simp add: handle_response_def)
  qed
  then show "uploadedFile (fst (handle_response r s)) = uploadedFile s"
    and "uploadedFileAsBase64 (fst (handle_response r s)) = uploadedFileAsBase64 s"
    by simp_all
qed

lemma try_block_frame:
  "uploadedFile (fst (try_block out s)) = uploadedFile s"
  "uploadedFileAsBase64 (fst (try_block out s)) = uploadedFileAsBase64 s"
  by (cases out; simp add: try_block_def handle_response_frame)+

text \<open>Requests are sent by the click handler only, and only when the guard lets it
  through.\<close>

lemma requests_only_from_generate:
  "requests (handle ev s) = requests s \<or>
   (ev = GenerateClicked \<and> (\<exists>file b64. uploadedFile s = Some file \<and> uploadedFileAsBase64 s = Some b64
      \<and> b64 \<noteq> [] \<and> requests (handle ev s) = requests s @
        [\<lparr>model = MODEL,
          contents = \<lparr>parts = Some [\<lparr>part_text = None,
                                 inlineData = Some \<lparr>mimeType = type file, data = Some b64\<rparr>\<rparr>,
                               \<lparr>part_text = Some PROMPT, inlineData = None\<rparr>]\<rparr>,
          config = \<lparr>responseModalities = [IMAGE, TEXT]\<rparr>\<rparr>]))"
proof (cases ev)
  case (FileSelected fo)
  then show ?thesis
    by (simp add: handleFileSelect_start_def alert_def split: option.splits)
next
  case (ReadEnded f re)
  then show ?thesis
    by (simp add: handleFileSelect_resume_def split: sum.splits)
next
  case GenerateClicked
  then show ?thesis
    by (simp add: generateScene_start_def alert_def setLoading_def Let_def split: option.splits)
next
  case (CallSettled out)
  have "requests (snd (scan_parts ps s)) = requests s" for ps
    by (induction ps) (simp_all split: option.splits)
  then have "requests (fst (handle_response r s)) = requests s" for r
    by (cases "first_candidate_parts r"; simp add: handle_response_def split: prod.splits)
       (metis snd_conv)
  then have "requests (fst (try_block out s)) = requests s"
    by (cases out) (simp_all add: try_block_def)
  then show ?thesis
    using CallSettled
    by (cases "try_block out s")
       (simp add: generateScene_resume_def setLoading_def catch_block_def alert_def
          split: option.splits)
qed

text \<open>The result image stays hidden under every event but a call that settles with a
  picture.\<close>

lemma resultImage_hidden_handle:
  assumes "\<not> shows_image ev" "resultImage_hidden s"
  shows "resultImage_hidden (handle ev s)"
proof (cases ev)
  case (FileSelected fo)
  then show ?thesis
    using assms by (simp add: handleFileSelect_start_def alert_def split: option.splits)
next
  case (ReadEnded f re)
  then show ?thesis
    using assms by (simp add: handleFileSelect_resume_def split: sum.splits)
next
  case GenerateClicked
  then show ?thesis
    using assms
    by (simp add: generateScene_start_def alert_def setLoading_def Let_def split: option.splits)
next
  case (CallSettled out)
  with assms obtain e where "thrown_of out = Some e"
    by auto
  then show ?thesis
    using CallSettled assms
    by (simp add: generateScene_resume_thrown setLoading_def catch_block_def alert_def)
qed

lemma run_Cons: "run (ev # evs) s = run evs (handle ev s)"
  by (simp add: run_def)

lemma run_Nil: "run [] s = s"
  by (simp add: run_def)

lemma resultImage_hidden_run:
  "\<forall>ev \<in> set evs. \<not> shows_image ev \<Longrightarrow> resultImage_hidden s \<Longrightarrow>
   resultImage_hidden (run evs s)"
proof (induction evs arbitrary: s)
  case Nil
  then show ?case by (simp add: run_Nil)
next
  case (Cons ev evs)
  then show ?case by (simp add: run_Cons resultImage_hidden_handle)
qed

subsection \<open>Base64\<close>

lemma index_of_nth: "distinct xs \<Longrightarrow> i < length xs \<Longrightarrow> index_of (xs ! i) xs = i"
proof (induction xs arbitrary: i)
  case Nil
  then show ?case by simp
next
  case (Cons x xs)
  then show ?case by (cases i) auto
qed

lemma length_base64_alphabet: "length base64_alphabet = 64"
  by (simp add: base64_alphabet_def)

lemma distinct_base64_alphabet: "distinct base64_alphabet"
  by (simp add: base64_alphabet_def)

lemma base64_char_in: "n < 64 \<Longrightarrow> base64_char n \<in> set base64_alphabet"
  by (simp add: base64_char_def length_base64_alphabet)

lemma base64_char_not_pad: "n < 64 \<Longrightarrow> base64_char n \<noteq> CHR ''=''"
  using base64_char_in [of n] by (auto simp: base64_alphabet_def)

lemma base64_char_not_comma: "n < 64 \<Longrightarrow> CHR '','' \<noteq> base64_char n"
  using base64_char_in [of n] by (auto simp: base64_alphabet_def)

lemma base64_value_char: "n < 64 \<Longrightarrow> base64_value (base64_char n) = n"
  unfolding base64_value_def base64_char_def
  by (rule index_of_nth) (simp_all add: distinct_base64_alphabet length_base64_alphabet)

lemma unat_byte_less: "unat (a :: byte) < 256"
  using unsigned_less [of a, where 'a = nat] by simp

lemma div16_less: "y < 256 \<Longrightarrow> y div 16 < 16" for y :: nat
  by (simp add: div_less_iff_less_mult)

lemma div64_less: "y < 256 \<Longrightarrow> y div 64 < 4" for y :: nat
  by (simp add: div_less_iff_less_mult)

lemma div4_less: "y < 256 \<Longrightarrow> y div 4 < 64" for y :: nat
  by (simp add: div_less_iff_less_mult)

lemma mod4_times16: "x mod 4 * 16 \<le> 48" for x :: nat
proof -
  have "x mod 4 < 4" by simp
  then have "x mod 4 \<le> 3" by linarith
  then show ?thesis by linarith
qed

lemma mod16_times4: "x mod 16 * 4 \<le> 60" for x :: nat
proof -
  have "x mod 16 < 16" by simp
  then have "x mod 16 \<le> 15" by linarith
  then show ?thesis by linarith
qed

lemma sextet_bounds:
  "unat (a :: byte) div 4 < 64"
  "unat (a :: byte) mod 4 * 16 < 64"
  "unat (a :: byte) mod 4 * 16 + unat (b :: byte) div 16 < 64"
  "unat (b :: byte) mod 16 * 4 < 64"
  "unat (b :: byte) mod 16 * 4 + unat (c :: byte) div 64 < 64"
  "unat (c :: byte) mod 64 < 64"
proof -
  show "unat a div 4 < 64"
    by (rule div4_less [OF unat_byte_less])
  show "unat a mod 4 * 16 < 64"
    using mod4_times16 [of "unat a"] by linarith
  show "unat a mod 4 * 16 + unat b div 16 < 64"
    using mod4_times16 [of "unat a"] div16_less [OF unat_byte_less [of b]] by linarith
  show "unat b mod 16 * 4 < 64"
    using mod16_times4 [of "unat b"] by linarith
  show "unat b mod 16 * 4 + unat c div 64 < 64"
    using mod16_times4 [of "unat b"] div64_less [OF unat_byte_less [of c]] by linarith
  show "unat c mod 64 < 64"
    by simp
qed

lemma base64_decode_base64: "base64_decode (base64 bs) = bs"
proof (induction bs rule: base64.induct)
  case 1
  then show ?case by simp
next
  case (2 a)
  then show ?case
    by (simp add: base64_value_char sextet_bounds
        div16_less [OF unat_byte_less] div64_less [OF unat_byte_less]
        del: of_nat_add of_nat_mult)
next
  case (3 a b)
  then show ?case
    by (simp add: base64_value_char sextet_bounds base64_char_not_pad
        div16_less [OF unat_byte_less] div64_less [OF unat_byte_less]
        del: of_nat_add of_nat_mult)
next
  case (4 a b c bs)
  then show ?case
    by (simp add: base64_value_char sextet_bounds base64_char_not_pad
        div16_less [OF unat_byte_less] div64_less [OF unat_byte_less]
        del: of_nat_add of_nat_mult)
qed

lemma comma_notin_base64: "CHR '','' \<notin> set (base64 bs)"
  by (induction bs rule: base64.induct) (simp_all add: base64_char_not_comma sextet_bounds)

subsection \<open>Splitting a data URL\<close>

lemma js_split_no_sep: "sep \<notin> set xs \<Longrightarrow> js_split sep xs = [xs]"
  by (induction xs) auto

lemma js_split_at_sep:
  "sep \<notin> set xs \<Longrightarrow> js_split sep (xs @ sep # ys) = xs # js_split sep ys"
  by (induction xs) auto

lemma split_data_url:
  assumes "CHR '','' \<notin> set t" "CHR '','' \<notin> set e"
  shows "js_split (CHR '','') (''data:'' @ t @ '';base64,'' @ e) = [''data:'' @ t @ '';base64'', e]"
proof -
  have "CHR '','' \<notin> set (''data:'' @ t @ '';base64'')"
    using assms(1) by simp
  then have "js_split (CHR '','') ((''data:'' @ t @ '';base64'') @ CHR '','' # e)
      = (''data:'' @ t @ '';base64'') # js_split (CHR '','') e"
    by (rule js_split_at_sep)
  then show ?thesis
    using assms(2) by (simp add: js_split_no_sep)
qed

lemma fileToGenerativePart_readAsDataURL:
  assumes "CHR '','' \<notin> set (type file)"
  shows "fileToGenerativePart file (readAsDataURL file)
       = Inr \<lparr>mimeType = type file, data = Some (base64 (file_bytes file))\<rparr>"
  unfolding readAsDataURL_def
  by (simp only: fileToGenerativePart.simps split_data_url [OF assms comma_notin_base64])
     (simp add: item_def)

subsection \<open>Sample values\<close>

lemma cat_page_eq:
  "cat_page =
     \<lparr>uploadedFile = Some cat_png,
      uploadedFileAsBase64 = Some ''iVBORw=='',
      imagePreview_src = Some cat_png,
      imagePreview_hidden = False,
      uploadPlaceholder_hidden = True,
      generateBtn_disabled = False,
      generateBtn_textContent = ''Generate Scene'',
      resultImage_src = [],
      resultImage_hidden = True,
      resultPlaceholder_hidden = False,
      loader_hidden = True,
      alerts = [],
      console_errors = [],
      requests = [],
      reads = [cat_png]\<rparr>"
  by (simp add: cat_page_def run_def initial_page_def handleFileSelect_start_def
      handleFileSelect_resume_def readAsDataURL_def cat_png_def startsWith_def item_def
      base64_char_def base64_alphabet_def)

lemmas eval_defs =
  run_def initial_page_def handleFileSelect_start_def handleFileSelect_resume_def
  readAsDataURL_def startsWith_def item_def base64_char_def base64_alphabet_def
  generateScene_start_def generateScene_resume_def try_block_def handle_response_def
  first_candidate_parts_def
  catch_block_def alert_def setLoading_def candidate_of_def said_def picture_def

subsection \<open>When the no-image error is raised\<close>

text \<open>
  C1, as stated, fails. The script scans \<^verbatim>\<open>response.candidates[0]\<close> only. For the
  response \<open>two_candidates\<close>, whose second candidate holds a picture and whose first holds
  none, the no-image error is thrown and alerted, and the result image stays hidden,
  although an inline-image part exists among the returned parts.
\<close>

theorem image_in_second_candidate_counterexample:
  "candidates two_candidates
     = Some [candidate_of [said ''I cannot draw this.''],
             candidate_of [picture ''image/png'' ''QUJD'']]
   \<and> inlineData (picture ''image/png'' ''QUJD'')
       = Some \<lparr>mimeType = ''image/png'', data = Some ''QUJD''\<rparr>
   \<and> snd (handle_response two_candidates (generateScene_start cat_page))
       = Some (Error NO_IMAGE_MESSAGE)
   \<and> alerts (generateScene_resume (Resolved two_candidates) (generateScene_start cat_page))
       = [''An error occurred: No image was generated. The model may have refused the request.'']
   \<and> resultImage_hidden
        (generateScene_resume (Resolved two_candidates) (generateScene_start cat_page))"
  by (simp add: two_candidates_def candidate_of_def said_def picture_def handle_response_def
      first_candidate_parts_def generateScene_resume_def try_block_def catch_block_def
      alert_def setLoading_def NO_IMAGE_MESSAGE_def generateScene_start_def cat_page_eq)

text \<open>
  A response without candidates, or whose first candidate has no content or no parts,
  holds no inline-image part either, and what is thrown for it at line 128 is a
  \<^verbatim>\<open>TypeError\<close>, not the no-image error.
\<close>

lemma blocked_response_type_error:
  "snd (handle_response blocked_response s) = Some (Error NO_CONTENT_MESSAGE)
   \<and> NO_CONTENT_MESSAGE \<noteq> NO_IMAGE_MESSAGE
   \<and> alerts (generateScene_resume (Resolved blocked_response) s)
       = alerts s @ [''An error occurred: '' @ NO_CONTENT_MESSAGE]"
  by (simp add: blocked_response_def handle_response_def first_candidate_parts_def
      generateScene_resume_def try_block_def catch_block_def alert_def setLoading_def
      NO_CONTENT_MESSAGE_def cannot_read_def NO_IMAGE_MESSAGE_def)

text \<open>
  C1, amended. For every response whose first candidate is there and has a content with a
  list of parts, the \<^verbatim>\<open>try\<close> block throws the error "No image was generated. The model
  may have refused the request." if and only if no part of the first candidate has inline
  data.
\<close>

theorem no_image_error_iff:
  assumes "candidates r = Some (c # cs)" and "content c = Some ct" and "parts ct = Some ps"
  shows "(snd (handle_response r s) = Some (Error NO_IMAGE_MESSAGE))
       = (\<forall>p \<in> set ps. inlineData p = None)"
proof -
  obtain found s' where sp: "scan_parts ps s = (found, s')"
    by (cases "scan_parts ps s")
  have "found = (\<exists>p \<in> set ps. inlineData p \<noteq> None)"
    using fst_scan_parts [of ps s] sp by simp
  then show ?thesis
    using first_candidate_parts_Inr [OF assms] sp by (auto simp: handle_response_def)
qed

theorem no_image_error_iff_witness:
  "candidates \<lparr>candidates = Some [candidate_of [said ''I cannot draw this.'']]\<rparr>
     = Some (candidate_of [said ''I cannot draw this.''] # [])
   \<and> content (candidate_of [said ''I cannot draw this.''])
       = Some \<lparr>parts = Some [said ''I cannot draw this.'']\<rparr>
   \<and> snd (handle_response
            \<lparr>candidates = Some [candidate_of [said ''I cannot draw this.'']]\<rparr> cat_page)
       = Some (Error NO_IMAGE_MESSAGE)
   \<and> inlineData (said ''I cannot draw this.'') = None"
proof -
  have c: "candidates \<lparr>candidates = Some [candidate_of [said ''I cannot draw this.'']]\<rparr>
     = Some (candidate_of [said ''I cannot draw this.''] # [])"
    by simp
  have ct: "content (candidate_of [said ''I cannot draw this.''])
       = Some \<lparr>parts = Some [said ''I cannot draw this.'']\<rparr>"
    by (simp add: candidate_of_def)
  have ps: "parts \<lparr>parts = Some [said ''I cannot draw this.'']\<rparr>
       = Some [said ''I cannot draw this.'']"
    by simp
  have none: "\<forall>p \<in> set [said ''I cannot draw this.'']. inlineData p = None"
    by (simp add: said_def)
  have "snd (handle_response
            \<lparr>candidates = Some [candidate_of [said ''I cannot draw this.'']]\<rparr> cat_page)
       = Some (Error NO_IMAGE_MESSAGE)"
    using no_image_error_iff [OF c ct ps, of cat_page] none by (simp only:)
  then show ?thesis
    using c ct by (simp add: said_def)
qed

subsection \<open>The encoding sent and the file selected\<close>

text \<open>
  C2. The encoding that is used should be that of the file selected. It is not on the
  events \<open>reselect_then_generate\<close>: after \<open>dog_jpeg\<close> is chosen the button is enabled,
  its read has not ended, and the stored encoding is still that of \<open>cat_png\<close>; the
  click passes the guard and the request sent pairs the type of \<open>dog_jpeg\<close> with the
  content of \<open>cat_png\<close>.
\<close>

theorem stale_encoding_sent:
  "uploadedFile (run (take 3 reselect_then_generate) initial_page) = Some dog_jpeg
   \<and> uploadedFileAsBase64 (run (take 3 reselect_then_generate) initial_page) = Some ''iVBORw==''
   \<and> \<not> generateBtn_disabled (run (take 3 reselect_then_generate) initial_page)
   \<and> reads (run (take 3 reselect_then_generate) initial_page) = [cat_png, dog_jpeg]
   \<and> requests (run reselect_then_generate initial_page) =
        [\<lparr>model = MODEL,
          contents = \<lparr>parts = Some [\<lparr>part_text = None,
                                 inlineData = Some \<lparr>mimeType = ''image/jpeg'',
                                                    data = Some ''iVBORw==''\<rparr>\<rparr>,
                               \<lparr>part_text = Some PROMPT, inlineData = None\<rparr>]\<rparr>,
          config = \<lparr>responseModalities = [IMAGE, TEXT]\<rparr>\<rparr>]
   \<and> base64 (file_bytes cat_png) = ''iVBORw==''
   \<and> base64 (file_bytes dog_jpeg) = ''/9j/''"
  by (simp add: reselect_then_generate_def cat_png_def dog_jpeg_def eval_defs)

text \<open>Two reads that end in the other order leave the encoding of the file chosen
  first beside the file chosen last.\<close>

lemma reads_ending_out_of_order:
  "uploadedFile (run [FileSelected (Some cat_png), FileSelected (Some dog_jpeg),
                      ReadEnded dog_jpeg (readAsDataURL dog_jpeg),
                      ReadEnded cat_png (readAsDataURL cat_png)] initial_page) = Some dog_jpeg
   \<and> uploadedFileAsBase64 (run [FileSelected (Some cat_png), FileSelected (Some dog_jpeg),
                      ReadEnded dog_jpeg (readAsDataURL dog_jpeg),
                      ReadEnded cat_png (readAsDataURL cat_png)] initial_page)
       = Some (base64 (file_bytes cat_png))"
  by (simp add: cat_png_def dog_jpeg_def eval_defs)

subsection \<open>The first inline part is the one displayed\<close>

text \<open>
  C3. When the first candidate's parts are some parts without inline data (text parts),
  then a part with inline data, then anything, the response handler sets the source of
  the result image to the data URL made of that part's media type and payload, shows the
  image and raises no alert; the parts before and after it play no role.
\<close>

theorem first_inline_part_displayed:
  assumes "candidates r = Some (c # cs)"
    and "content c = Some ct"
    and "parts ct = Some (pre @ p # post)"
    and "\<forall>q \<in> set pre. inlineData q = None"
    and "inlineData p = Some d"
  shows "resultImage_src (generateScene_resume (Resolved r) s)
           = ''data:'' @ mimeType d @ '';base64,'' @ template_str (data d)
       \<and> \<not> resultImage_hidden (generateScene_resume (Resolved r) s)
       \<and> alerts (generateScene_resume (Resolved r) s) = alerts s"
proof -
  have "handle_response r s =
      (s\<lparr>resultImage_src := ''data:'' @ mimeType d @ '';base64,'' @ template_str (data d),
         resultImage_hidden := False\<rparr>, None)"
    using first_candidate_parts_Inr [OF assms(1-3)] scan_parts_first [OF assms(4,5), of post s]
    by (simp add: handle_response_def)
  then show ?thesis
    by (simp add: generateScene_resume_def try_block_def setLoading_def)
qed

theorem first_inline_part_displayed_witness:
  "resultImage_src
     (generateScene_resume
        (Resolved \<lparr>candidates = Some
           [candidate_of [said ''Here is your scene.'', picture ''image/png'' ''QUJD'',
                          picture ''image/jpeg'' ''REVG'']]\<rparr>)
        (generateScene_start cat_page))
     = ''data:image/png;base64,QUJD''
   \<and> \<not> resultImage_hidden
     (generateScene_resume
        (Resolved \<lparr>candidates = Some
           [candidate_of [said ''Here is your scene.'', picture ''image/png'' ''QUJD'',
                          picture ''image/jpeg'' ''REVG'']]\<rparr>)
        (generateScene_start cat_page))"
proof -
  let ?c = "candidate_of [said ''Here is your scene.'', picture ''image/png'' ''QUJD'',
                          picture ''image/jpeg'' ''REVG'']"
  let ?ct = "\<lparr>parts = Some [said ''Here is your scene.'', picture ''image/png'' ''QUJD'',
                              picture ''image/jpeg'' ''REVG'']\<rparr>"
  have c: "candidates \<lparr>candidates = Some [?c]\<rparr> = Some (?c # [])"
    by simp
  have ct: "content ?c = Some ?ct"
    by (simp add: candidate_of_def)
  have ps: "parts ?ct =
      Some ([said ''Here is your scene.''] @ picture ''image/png'' ''QUJD''
        # [picture ''image/jpeg'' ''REVG''])"
    by simp
  have pre: "\<forall>q \<in> set [said ''Here is your scene.'']. inlineData q = None"
    by (simp add: said_def)
  have p: "inlineData (picture ''image/png'' ''QUJD'')
             = Some \<lparr>mimeType = ''image/png'', data = Some ''QUJD''\<rparr>"
    by (simp add: picture_def)
  show ?thesis
    using first_inline_part_displayed [OF c ct ps pre p, of "generateScene_start cat_page"]
    by simp
qed

subsection \<open>Rejected candidates\<close>

text \<open>
  C4. A candidate that is absent, or whose type does not start with \<^verbatim>\<open>image/\<close>, is
  answered by an alert and nothing else: the page is the same but for the alert, so the
  selected file and its encoding are unchanged, no read is started, and the button keeps
  its state (disabled, when it was disabled).
\<close>

theorem non_image_rejected:
  assumes "\<forall>file. fo = Some file \<longrightarrow> \<not> startsWith (type file) ''image/''"
  shows "handleFileSelect_start fo s = s\<lparr>alerts := alerts s @ [''Please select a valid image file.'']\<rparr>
       \<and> uploadedFile (handleFileSelect_start fo s) = uploadedFile s
       \<and> uploadedFileAsBase64 (handleFileSelect_start fo s) = uploadedFileAsBase64 s
       \<and> generateBtn_disabled (handleFileSelect_start fo s) = generateBtn_disabled s
       \<and> reads (handleFileSelect_start fo s) = reads s"
  using assms by (cases fo) (simp_all add: handleFileSelect_start_def alert_def)

theorem non_image_rejected_witness:
  "\<not> startsWith (type notes_txt) ''image/''
   \<and> alerts (handleFileSelect_start (Some notes_txt) initial_page)
       = [''Please select a valid image file.'']
   \<and> uploadedFile (handleFileSelect_start (Some notes_txt) initial_page) = None
   \<and> generateBtn_disabled (handleFileSelect_start (Some notes_txt) initial_page)"
proof -
  have h: "\<forall>file. Some notes_txt = Some file \<longrightarrow> \<not> startsWith (type file) ''image/''"
    by (simp add: notes_txt_def startsWith_def)
  show ?thesis
    using non_image_rejected [OF h, of initial_page]
    by (simp add: initial_page_def notes_txt_def startsWith_def)
qed

subsection \<open>Generation without an image\<close>

text \<open>
  C5. When the selected file or its encoding is absent as generation is triggered, the
  function alerts and returns: no request is sent and the page is the same but for the
  alert.
\<close>

theorem generate_without_image:
  assumes "uploadedFile s = None \<or> uploadedFileAsBase64 s = None"
  shows "generateScene_start s = s\<lparr>alerts := alerts s @ [''Please upload an image first.'']\<rparr>
       \<and> requests (generateScene_start s) = requests s"
  using assms by (auto simp: generateScene_start_def alert_def split: option.splits)

theorem generate_without_image_witness:
  "uploadedFile initial_page = None
   \<and> alerts (generateScene_start initial_page) = [''Please upload an image first.'']
   \<and> requests (generateScene_start initial_page) = []"
proof -
  have h: "uploadedFile initial_page = None \<or> uploadedFileAsBase64 initial_page = None"
    by (simp add: initial_page_def)
  show ?thesis
    using generate_without_image [OF h] by (simp add: initial_page_def)
qed

subsection \<open>Failures of an attempt\<close>

text \<open>
  C6, as stated, fails when attempts overlap. On the events \<open>overlapping_attempts\<close> the
  button is enabled again while the first call is in flight, a second request is sent,
  the first call shows its picture, and the failure of the second is alerted with the
  placeholder shown beside the picture of the first attempt, which is not hidden.
\<close>

theorem stale_image_after_failure_counterexample:
  "\<not> generateBtn_disabled (run (take 4 overlapping_attempts) initial_page)
   \<and> length (requests (run (take 5 overlapping_attempts) initial_page)) = 2
   \<and> alerts (run overlapping_attempts initial_page) = [''An error occurred: quota exceeded'']
   \<and> \<not> resultPlaceholder_hidden (run overlapping_attempts initial_page)
   \<and> \<not> resultImage_hidden (run overlapping_attempts initial_page)
   \<and> resultImage_src (run overlapping_attempts initial_page) = ''data:image/png;base64,QUJD''"
  by (simp add: overlapping_attempts_def one_picture_def cat_png_def eval_defs)

text \<open>
  C6, amended. For every attempt that passes the guard, and every outcome of its call
  for which something is thrown (a rejected call, a response whose candidates, first
  candidate, content or parts are absent, a first candidate without inline data):
  whatever events are handled while the call is
  in flight, the handler alerts "An error occurred: " followed by the error's message
  text (or the thrown value as a string) and shows the placeholder; and the result image
  is hidden, provided no other call settled with a picture in between.
\<close>

theorem failure_alerts_and_shows_placeholder:
  assumes "uploadedFile s = Some file" "uploadedFileAsBase64 s = Some b64" "b64 \<noteq> []"
    and "thrown_of out = Some e"
    and "\<forall>ev \<in> set evs. \<not> shows_image ev"
  shows "alerts (generateScene_resume out (run evs (generateScene_start s)))
           = alerts (run evs (generateScene_start s)) @ [''An error occurred: '' @ error_text e]
       \<and> \<not> resultPlaceholder_hidden (generateScene_resume out (run evs (generateScene_start s)))
       \<and> resultImage_hidden (generateScene_resume out (run evs (generateScene_start s)))"
proof -
  let ?m = "run evs (generateScene_start s)"
  have "resultImage_hidden (generateScene_start s)"
    by (simp add: generateScene_start_ready [OF assms(1-3)])
  then have "resultImage_hidden ?m"
    using assms(5) by (rule resultImage_hidden_run [rotated])
  then show ?thesis
    by (simp add: generateScene_resume_thrown [OF assms(4)] setLoading_def catch_block_def
        alert_def)
qed

theorem failure_alerts_and_shows_placeholder_witness:
  "thrown_of (Rejected (Error ''quota exceeded'')) = Some (Error ''quota exceeded'')
   \<and> \<not> shows_image (FileSelected (Some dog_jpeg))
   \<and> alerts (generateScene_resume (Rejected (Error ''quota exceeded''))
               (run [FileSelected (Some dog_jpeg)] (generateScene_start cat_page)))
       = [''An error occurred: quota exceeded'']
   \<and> \<not> resultPlaceholder_hidden
         (generateScene_resume (Rejected (Error ''quota exceeded''))
            (run [FileSelected (Some dog_jpeg)] (generateScene_start cat_page)))
   \<and> resultImage_hidden
         (generateScene_resume (Rejected (Error ''quota exceeded''))
            (run [FileSelected (Some dog_jpeg)] (generateScene_start cat_page)))"
proof -
  have f: "uploadedFile cat_page = Some cat_png"
    and b: "uploadedFileAsBase64 cat_page = Some ''iVBORw==''"
    and n: "''iVBORw=='' \<noteq> []"
    by (simp_all add: cat_page_eq)
  have t: "thrown_of (Rejected (Error ''quota exceeded'')) = Some (Error ''quota exceeded'')"
    by simp
  have evs: "\<forall>ev \<in> set [FileSelected (Some dog_jpeg)]. \<not> shows_image ev"
    by simp
  have a0: "alerts cat_page = []"
    by (simp add: cat_page_eq)
  have a: "alerts (run [FileSelected (Some dog_jpeg)] (generateScene_start cat_page)) = []"
    by (simp add: run_def generateScene_start_ready [OF f b n] handleFileSelect_start_def
        dog_jpeg_def startsWith_def a0)
  show ?thesis
    using failure_alerts_and_shows_placeholder [OF f b n t evs] a by simp
qed

subsection \<open>Loading\<close>

text \<open>
  C7. An attempt that passes the guard sends its request from a page already in the
  Loading state (loader shown, button disabled and labelled "Generating..."), and that is
  the state when the first turn ends. When the call settles, however it settles and
  whatever the page is by then, the second turn ends with the loader hidden, the button
  enabled and labelled "Generate Scene".
\<close>

theorem loading_entered_and_left:
  assumes "uploadedFile s = Some file" "uploadedFileAsBase64 s = Some b64" "b64 \<noteq> []"
  shows "(\<exists>l req. \<not> loader_hidden l \<and> generateBtn_disabled l
            \<and> generateBtn_textContent l = ''Generating...''
            \<and> generateScene_start s = l\<lparr>requests := requests l @ [req]\<rparr>)
       \<and> \<not> loader_hidden (generateScene_start s)
       \<and> generateBtn_disabled (generateScene_start s)
       \<and> generateBtn_textContent (generateScene_start s) = ''Generating...''
       \<and> (\<forall>out m. loader_hidden (generateScene_resume out m)
            \<and> \<not> generateBtn_disabled (generateScene_resume out m)
            \<and> generateBtn_textContent (generateScene_resume out m) = ''Generate Scene'')"
proof -
  let ?l = "s\<lparr>loader_hidden := False,
        generateBtn_disabled := True,
        generateBtn_textContent := ''Generating...'',
        resultPlaceholder_hidden := True,
        resultImage_hidden := True\<rparr>"
  have st: "generateScene_start s = ?l\<lparr>requests := requests ?l @
        [\<lparr>model = MODEL,
          contents = \<lparr>parts = Some [\<lparr>part_text = None,
                                 inlineData = Some \<lparr>mimeType = type file, data = Some b64\<rparr>\<rparr>,
                               \<lparr>part_text = Some PROMPT, inlineData = None\<rparr>]\<rparr>,
          config = \<lparr>responseModalities = [IMAGE, TEXT]\<rparr>\<rparr>]\<rparr>"
    using generateScene_start_ready [OF assms] by simp
  have ex: "\<exists>l req. \<not> loader_hidden l \<and> generateBtn_disabled l
            \<and> generateBtn_textContent l = ''Generating...''
            \<and> generateScene_start s = l\<lparr>requests := requests l @ [req]\<rparr>"
    by (rule exI [of _ ?l], rule exI, simp only: st) simp
  have now: "\<not> loader_hidden (generateScene_start s)
       \<and> generateBtn_disabled (generateScene_start s)
       \<and> generateBtn_textContent (generateScene_start s) = ''Generating...''"
    by (simp add: generateScene_start_ready [OF assms])
  from ex now show ?thesis
    by (simp add: generateScene_resume_idle)
qed

theorem loading_entered_and_left_witness:
  "uploadedFile cat_page = Some cat_png
   \<and> uploadedFileAsBase64 cat_page = Some ''iVBORw==''
   \<and> \<not> loader_hidden (generateScene_start cat_page)
   \<and> generateBtn_disabled (generateScene_start cat_page)
   \<and> generateBtn_textContent (generateScene_start cat_page) = ''Generating...''
   \<and> loader_hidden
        (generateScene_resume (Rejected (Error ''quota exceeded'')) (generateScene_start cat_page))
   \<and> \<not> generateBtn_disabled
        (generateScene_resume (Rejected (Error ''quota exceeded'')) (generateScene_start cat_page))
   \<and> generateBtn_textContent
        (generateScene_resume (Rejected (Error ''quota exceeded'')) (generateScene_start cat_page))
       = ''Generate Scene''"
proof -
  have f: "uploadedFile cat_page = Some cat_png"
    and b: "uploadedFileAsBase64 cat_page = Some ''iVBORw==''"
    and n: "''iVBORw=='' \<noteq> []"
    by (simp_all add: cat_page_eq)
  show ?thesis
    using loading_entered_and_left [OF f b n] f b by simp
qed

subsection \<open>The encoding of a selected file\<close>

text \<open>
  C8. After a valid image file has been selected and read, decoding the stored encoding
  should give back the bytes of the file, with the file's declared type as the encoder's
  media type. The encoder is documented to resolve with the base64 string (lines 40-44)
  and to remove the prefix of the data URL (line 50), but line 51 takes what stands
  between the first and the second comma. For \<open>odd_type_file\<close>, whose type
  \<^verbatim>\<open>image/a,b\<close> passes the validation of line 71, the encoder resolves with
  \<^verbatim>\<open>b;base64\<close>, and that is stored as the encoding; the base64 text of the content is
  \<^verbatim>\<open>QQ==\<close>, and decoding what is stored does not give the content back.
\<close>

theorem comma_in_type_breaks_encoding:
  "startsWith (type odd_type_file) ''image/''
   \<and> fileToGenerativePart odd_type_file (readAsDataURL odd_type_file)
       = Inr \<lparr>mimeType = ''image/a,b'', data = Some ''b;base64''\<rparr>
   \<and> uploadedFile (run [FileSelected (Some odd_type_file),
                         ReadEnded odd_type_file (readAsDataURL odd_type_file)] initial_page)
       = Some odd_type_file
   \<and> uploadedFileAsBase64 (run [FileSelected (Some odd_type_file),
                         ReadEnded odd_type_file (readAsDataURL odd_type_file)] initial_page)
       = Some ''b;base64''
   \<and> base64 (file_bytes odd_type_file) = ''QQ==''
   \<and> base64_decode ''b;base64'' \<noteq> file_bytes odd_type_file"
  by (simp add: odd_type_file_def run_def initial_page_def handleFileSelect_start_def
      handleFileSelect_resume_def readAsDataURL_def startsWith_def item_def base64_char_def
      base64_alphabet_def base64_value_def)

text \<open>
  For every file whose type starts with \<^verbatim>\<open>image/\<close> and contains no comma the round trip
  holds: selecting the file stores it and starts its read; when the read succeeds the
  encoder returns the file's declared type as media type and the base64 text of its
  content as data; that text is stored as the encoding, and decoding it gives back the
  content exactly.
\<close>

lemma encoding_round_trips:
  assumes "startsWith (type file) ''image/''" and "CHR '','' \<notin> set (type file)"
  shows "uploadedFile (handleFileSelect_start (Some file) s) = Some file
       \<and> reads (handleFileSelect_start (Some file) s) = reads s @ [file]
       \<and> fileToGenerativePart file (readAsDataURL file)
           = Inr \<lparr>mimeType = type file, data = Some (base64 (file_bytes file))\<rparr>
       \<and> uploadedFileAsBase64
            (handleFileSelect_resume (fileToGenerativePart file (readAsDataURL file)) m)
           = Some (base64 (file_bytes file))
       \<and> base64_decode (base64 (file_bytes file)) = file_bytes file"
  using assms(1)
  by (simp add: fileToGenerativePart_readAsDataURL [OF assms(2)] handleFileSelect_start_def
      handleFileSelect_resume_def base64_decode_base64)

subsection \<open>The request\<close>

text \<open>
  C9. A request sent by an attempt that passes the guard has exactly two parts, in this
  order: an inline-data part with the type of the file selected and the encoding stored at
  that moment, and a text part with the constant \<open>PROMPT\<close>. (By
  \<open>requests_only_from_generate\<close> no request is sent in any other way.)
\<close>

theorem request_has_image_then_prompt:
  assumes "uploadedFile s = Some file" "uploadedFileAsBase64 s = Some b64" "b64 \<noteq> []"
  shows "requests (generateScene_start s) = requests s @
        [\<lparr>model = MODEL,
          contents = \<lparr>parts = Some [\<lparr>part_text = None,
                                 inlineData = Some \<lparr>mimeType = type file, data = Some b64\<rparr>\<rparr>,
                               \<lparr>part_text = Some PROMPT, inlineData = None\<rparr>]\<rparr>,
          config = \<lparr>responseModalities = [IMAGE, TEXT]\<rparr>\<rparr>]"
  by (simp add: generateScene_start_ready [OF assms])

theorem request_has_image_then_prompt_witness:
  "uploadedFile cat_page = Some cat_png
   \<and> uploadedFileAsBase64 cat_page = Some ''iVBORw==''
   \<and> map (\<lambda>r. parts (contents r)) (requests (generateScene_start cat_page)) =
        [Some [\<lparr>part_text = None,
           inlineData = Some \<lparr>mimeType = ''image/png'', data = Some ''iVBORw==''\<rparr>\<rparr>,
          \<lparr>part_text = Some PROMPT, inlineData = None\<rparr>]]"
proof -
  have f: "uploadedFile cat_page = Some cat_png"
    and b: "uploadedFileAsBase64 cat_page = Some ''iVBORw==''"
    and n: "''iVBORw=='' \<noteq> []"
    by (simp_all add: cat_page_eq)
  have r: "requests cat_page = []"
    by (simp add: cat_page_eq)
  show ?thesis
    using request_has_image_then_prompt [OF f b n] f b r by (simp add: cat_png_def)
qed

subsection \<open>Generation and the selection\<close>

text \<open>
  C10. Neither turn of \<^verbatim>\<open>generateScene\<close> writes the selected file or its encoding,
  whatever the page and however the call settles.
\<close>

theorem generation_keeps_selection:
  "uploadedFile (generateScene_start s) = uploadedFile s
   \<and> uploadedFileAsBase64 (generateScene_start s) = uploadedFileAsBase64 s
   \<and> uploadedFile (generateScene_resume out m) = uploadedFile m
   \<and> uploadedFileAsBase64 (generateScene_resume out m) = uploadedFileAsBase64 m"
proof -
  have start: "uploadedFile (generateScene_start s) = uploadedFile s
     \<and> uploadedFileAsBase64 (generateScene_start s) = uploadedFileAsBase64 s"
    by (simp add: generateScene_start_def alert_def setLoading_def Let_def split: option.splits)
  obtain s1 ex where tb: "try_block out m = (s1, ex)"
    by (cases "try_block out m")
  have s1: "uploadedFile s1 = uploadedFile m" "uploadedFileAsBase64 s1 = uploadedFileAsBase64 m"
    using try_block_frame [of out m] tb by simp_all
  have "uploadedFile (generateScene_resume out m) = uploadedFile m
     \<and> uploadedFileAsBase64 (generateScene_resume out m) = uploadedFileAsBase64 m"
    using tb s1 by (cases ex) (simp_all add: generateScene_resume_def setLoading_frame catch_block_frame)
  with start show ?thesis by simp
qed

end
